theory Spec2Isabelle
  imports Complex_Main "HOL-Library.Sublist" "HOL-Library.Word"
begin

section \<open>Values of the platform\<close>

text \<open>
  A JavaScript string is the list of its UTF-16 code units: \<open>length\<close> is the
  \<^verbatim>\<open>.length\<close> property and \<open>take n\<close> is \<^verbatim>\<open>substring(0, n)\<close>. String literals of
  the source are written \<open>js ''...''\<close>. A JavaScript number is modelled by the rational
  it denotes. Property names, header names and the two components of a parsed URL that
  the handler reads (which the URL serialiser emits in ASCII) are plain strings.
\<close>

type_synonym code_unit = "16 word"
type_synonym js_string = "code_unit list"

definition js :: "string \<Rightarrow> js_string" where
  "js s = map (\<lambda>c. of_nat (of_char c)) s"

text \<open>
  The values handed to \<^verbatim>\<open>c.json\<close>. \<open>JUndefined\<close> is the value of a property that the
  source binds to an expression which is \<^verbatim>\<open>undefined\<close>.
\<close>

datatype json =
    JUndefined
  | JNull
  | JBool bool
  | JNum rat
  | JStr js_string
  | JArr "json list"
  | JObj "(string \<times> json) list"

text \<open>
  \<^verbatim>\<open>JSON.stringify\<close>, by which \<^verbatim>\<open>c.json\<close> writes the body, read back as a value: a
  property of an object whose value is undefined is left out, and an undefined element
  of an array becomes null.
\<close>

fun stringify :: "json \<Rightarrow> json"
  and stringify_properties :: "(string \<times> json) list \<Rightarrow> (string \<times> json) list"
  and stringify_elements :: "json list \<Rightarrow> json list" where
  "stringify (JObj kvs) = JObj (stringify_properties kvs)"
| "stringify (JArr vs) = JArr (stringify_elements vs)"
| "stringify v = v"
| "stringify_properties [] = []"
| "stringify_properties ((k, JUndefined) # kvs) = stringify_properties kvs"
| "stringify_properties ((k, v) # kvs) = (k, stringify v) # stringify_properties kvs"
| "stringify_elements [] = []"
| "stringify_elements (JUndefined # vs) = JNull # stringify_elements vs"
| "stringify_elements (v # vs) = stringify v # stringify_elements vs"

fun properties :: "json \<Rightarrow> string list" where
  "properties (JObj kvs) = map fst kvs"
| "properties _ = []"

fun property :: "json \<Rightarrow> string \<Rightarrow> json option" where
  "property (JObj kvs) k = map_of kvs k"
| "property _ k = None"

definition str_or_undefined :: "js_string option \<Rightarrow> json" where
  "str_or_undefined x = (case x of None \<Rightarrow> JUndefined | Some v \<Rightarrow> JStr v)"

definition num_or_undefined :: "rat option \<Rightarrow> json" where
  "num_or_undefined x = (case x of None \<Rightarrow> JUndefined | Some v \<Rightarrow> JNum v)"

text \<open>
  Truthiness of a value of type \<^verbatim>\<open>string | undefined\<close>: \<^verbatim>\<open>!x\<close> holds of undefined and
  of the empty string; \<open>truthy x\<close> is \<open>None\<close> then, and the string otherwise.
\<close>

definition truthy :: "js_string option \<Rightarrow> js_string option" where
  "truthy x = (case x of None \<Rightarrow> None | Some v \<Rightarrow> if v = [] then None else Some v)"

text \<open>
  The value that \<^verbatim>\<open>Headers.set\<close> stores for a string, \<open>None\<close> when it throws a TypeError:
  the string must be a byte string (no code unit above 255); leading and trailing HTTP
  whitespace (tab, line feed, carriage return, space) is removed; what is left must hold
  no NUL, line feed or carriage return.
\<close>

definition http_whitespace :: "code_unit \<Rightarrow> bool" where
  "http_whitespace u = (u = 0x09 \<or> u = 0x0A \<or> u = 0x0D \<or> u = 0x20)"

definition normalize_value :: "js_string \<Rightarrow> js_string" where
  "normalize_value v = rev (dropWhile http_whitespace (rev (dropWhile http_whitespace v)))"

definition header_value :: "js_string \<Rightarrow> js_string option" where
  "header_value v =
     (if list_ex (\<lambda>u. 0xFF < u) v then None
      else
        let t = normalize_value v
        in if list_ex (\<lambda>u. u = 0x00 \<or> u = 0x0A \<or> u = 0x0D) t then None else Some t)"

text \<open>
  \<^verbatim>\<open>String.prototype.toLowerCase\<close> on the code points below 256: the ASCII capitals
  and the Latin-1 capitals (all of U+00C0 to U+00DE but the multiplication sign) move
  down by 32, every other code point stays.
\<close>

definition lower_char :: "char \<Rightarrow> char" where
  "lower_char c =
     (let n = (of_char c :: nat)
      in if (65 \<le> n \<and> n \<le> 90) \<or> (192 \<le> n \<and> n \<le> 222 \<and> n \<noteq> 215)
         then char_of (n + 32) else c)"

definition toLowerCase :: "string \<Rightarrow> string" where
  "toLowerCase s = map lower_char s"

definition startsWith :: "string \<Rightarrow> string \<Rightarrow> bool" where
  "startsWith s p = prefix p s"

definition endsWith :: "string \<Rightarrow> string \<Rightarrow> bool" where
  "endsWith s p = suffix p s"

section \<open>The collaborators of \<^verbatim>\<open>src/service.ts\<close>\<close>

datatype Network = Solana | Base

text \<open>The payment claim as the handler reads it: \<^verbatim>\<open>payment.txHash\<close>, \<^verbatim>\<open>payment.network\<close>.\<close>

record PaymentInfo =
  txHash :: js_string
  network :: Network

text \<open>The result of \<^verbatim>\<open>verifyPayment\<close> as the handler reads it: \<^verbatim>\<open>valid\<close>, \<^verbatim>\<open>error\<close>, \<^verbatim>\<open>amount\<close>.\<close>

record PaymentVerification =
  valid :: bool
  error :: "js_string option"
  amount :: "rat option"

text \<open>What \<^verbatim>\<open>new URL(url)\<close> yields, restricted to the two properties read.\<close>

record URL =
  protocol :: string
  hostname :: string

record ProxyConfig =
  country :: js_string

text \<open>A thrown \<^verbatim>\<open>Error\<close> with its \<^verbatim>\<open>message\<close>.\<close>

datatype thrown = Error (message: js_string)

text \<open>The upstream response: its status and the outcome of awaiting \<^verbatim>\<open>response.text()\<close>.\<close>

record FetchResponse =
  resp_status :: int
  resp_text :: "thrown + js_string"

text \<open>The Hono context, restricted to what is read from it.\<close>

record Context =
  req_headers :: "(string \<times> js_string) list"
  req_query :: "(string \<times> js_string) list"

definition query :: "Context \<Rightarrow> string \<Rightarrow> js_string option" where
  "query c k = map_of (req_query c) k"

text \<open>
  The imports of the handler, the URL constructor of the platform and the TypeError that
  the platform throws for a header name and a value it does not store. The two
  asynchronous imports act on the world outside the handler (the chain RPC, the replay
  store of \<^verbatim>\<open>payment.ts\<close>, the network), whose state \<open>'w\<close> is threaded through them.
\<close>

record 'w collaborators =
  extractPayment :: "Context \<Rightarrow> PaymentInfo option"
  verifyPayment :: "PaymentInfo \<Rightarrow> js_string \<Rightarrow> rat \<Rightarrow> 'w \<Rightarrow> PaymentVerification \<times> 'w"
  build402Response :: "js_string \<Rightarrow> js_string \<Rightarrow> rat \<Rightarrow> js_string \<Rightarrow> json \<Rightarrow> json"
  new_URL :: "js_string \<Rightarrow> URL option"
  invalid_header :: "string \<Rightarrow> js_string \<Rightarrow> thrown"
  getProxy :: "thrown + ProxyConfig"
  proxyFetch :: "js_string \<Rightarrow> 'w \<Rightarrow> (thrown + FetchResponse) \<times> 'w"

text \<open>The calls the handler makes, in order, are logged beside its response.\<close>

datatype call =
    CallExtractPayment
  | CallBuild402Response
  | CallVerifyPayment PaymentInfo
  | CallGetProxy
  | CallProxyFetch js_string
  | CallResponseText

record Response =
  status :: nat
  headers :: "(string \<times> js_string) list"
  body :: json

record 'w Result =
  response :: Response
  calls :: "call list"
  world :: 'w

text \<open>
  \<^verbatim>\<open>c.json(obj, status)\<close> on a context whose headers so far are \<open>hs\<close>: the body is the
  object as \<^verbatim>\<open>JSON.stringify\<close> writes it.
\<close>

definition c_json :: "(string \<times> js_string) list \<Rightarrow> json \<Rightarrow> nat \<Rightarrow> Response" where
  "c_json hs obj st = \<lparr>status = st, headers = hs, body = stringify obj\<rparr>"

text \<open>
  \<^verbatim>\<open>c.header(name, value)\<close> on a context whose headers so far are \<open>hs\<close>: the headers after
  it, or the TypeError it throws. The handler sets each name once.
\<close>

definition c_header ::
  "'w collaborators \<Rightarrow> (string \<times> js_string) list \<Rightarrow> string \<Rightarrow> js_string \<Rightarrow>
   thrown + (string \<times> js_string) list" where
  "c_header d hs name v =
     (case header_value v of
        None \<Rightarrow> Inl (invalid_header d name v)
      | Some t \<Rightarrow> Inr (hs @ [(name, t)]))"

section \<open>\<^verbatim>\<open>src/service.ts\<close>\<close>

definition PRICE_USDC :: rat where
  "PRICE_USDC = 5 / 1000"

definition DESCRIPTION :: js_string where
  "DESCRIPTION = js ''Fetch any webpage through a real 4G/5G mobile IP. Returns clean text content.''"

definition em_dash :: js_string where
  "em_dash = [0x2014]"

definition dquote :: js_string where
  "dquote = [0x22]"

definition OUTPUT_SCHEMA :: json where
  "OUTPUT_SCHEMA = JObj
     [(''input'', JObj
        [(''url'', JStr (js ''string '' @ em_dash @ js '' URL to fetch (required)''))]),
      (''output'', JObj
        [(''url'', JStr (js ''string '' @ em_dash @ js '' the URL that was fetched'')),
         (''status'', JStr (js ''number '' @ em_dash @ js '' HTTP status code from the target'')),
         (''text'', JStr (js ''string '' @ em_dash @ js '' page text content (max 50KB)'')),
         (''contentLength'', JStr (js ''number '' @ em_dash @ js '' original content length in bytes'')),
         (''proxy'', JStr (js ''{ country: string, type: '' @ dquote @ js ''mobile'' @ dquote @ js '' }''))])]"

definition maxLen :: nat where
  "maxLen = 50000"

text \<open>Lines 81 to 102: the validation of the url, \<open>None\<close> when it passes.\<close>

definition validate_url :: "'w collaborators \<Rightarrow> js_string \<Rightarrow> json option" where
  "validate_url d url =
     (case new_URL d url of
        None \<Rightarrow> Some (JObj [(''error'', JStr (js ''Invalid URL format''))])
      | Some parsed \<Rightarrow>
          if protocol parsed \<notin> set [''http:'', ''https:'']
          then Some (JObj [(''error'', JStr (js ''Only http:// and https:// URLs are allowed''))])
          else
            let host = toLowerCase (hostname parsed)
            in if host = ''localhost'' \<or>
                  startsWith host ''127.'' \<or>
                  startsWith host ''10.'' \<or>
                  startsWith host ''192.168.'' \<or>
                  startsWith host ''172.'' \<or>
                  host = ''169.254.169.254'' \<or>
                  endsWith host ''.local'' \<or>
                  endsWith host ''.internal''
               then Some (JObj [(''error'', JStr (js ''Private/internal URLs are not allowed''))])
               else None)"

text \<open>
  Lines 128 to 133: the \<^verbatim>\<open>catch\<close> of the paid work, on a context whose headers so far are
  \<open>hs\<close>.
\<close>

definition failed :: "(string \<times> js_string) list \<Rightarrow> thrown \<Rightarrow> Response" where
  "failed hs err = c_json hs
     (JObj [(''error'', JStr (js ''Service execution failed'')),
            (''message'', JStr (message err)),
            (''hint'', JStr (js ''The target URL may be unreachable or the proxy may be temporarily unavailable.''))])
     502"

text \<open>
  Lines 104 to 134: the paid work, inside its \<^verbatim>\<open>try\<close>. Every statement that can throw
  has its branch into the \<^verbatim>\<open>catch\<close>: \<^verbatim>\<open>getProxy\<close>, \<^verbatim>\<open>proxyFetch\<close>, \<^verbatim>\<open>response.text()\<close> and
  the two calls of \<^verbatim>\<open>c.header\<close>; a header set before the exception stays on the context.
\<close>

definition step4 ::
  "'w collaborators \<Rightarrow> PaymentInfo \<Rightarrow> PaymentVerification \<Rightarrow> js_string \<Rightarrow> call list \<Rightarrow> 'w \<Rightarrow> 'w Result" where
  "step4 d payment verification url made w =
     (case getProxy d of
        Inl err \<Rightarrow> \<lparr>response = failed [] err, calls = made @ [CallGetProxy], world = w\<rparr>
      | Inr proxy \<Rightarrow>
         (case proxyFetch d url w of
            (Inl err, w') \<Rightarrow>
              \<lparr>response = failed [] err, calls = made @ [CallGetProxy, CallProxyFetch url], world = w'\<rparr>
          | (Inr resp, w') \<Rightarrow>
             (case resp_text resp of
                Inl err \<Rightarrow>
                  \<lparr>response = failed [] err,
                   calls = made @ [CallGetProxy, CallProxyFetch url, CallResponseText], world = w'\<rparr>
              | Inr txt \<Rightarrow>
                 (case c_header d [] ''X-Payment-Settled'' (js ''true'') of
                    Inl err \<Rightarrow>
                      \<lparr>response = failed [] err,
                       calls = made @ [CallGetProxy, CallProxyFetch url, CallResponseText], world = w'\<rparr>
                  | Inr hs1 \<Rightarrow>
                     (case c_header d hs1 ''X-Payment-TxHash'' (txHash payment) of
                        Inl err \<Rightarrow>
                          \<lparr>response = failed hs1 err,
                           calls = made @ [CallGetProxy, CallProxyFetch url, CallResponseText], world = w'\<rparr>
                      | Inr hs2 \<Rightarrow>
                          \<lparr>response = c_json hs2
                             (JObj
                               [(''url'', JStr url),
                                (''status'', JNum (of_int (resp_status resp))),
                                (''text'', JStr (if length txt > maxLen then take maxLen txt else txt)),
                                (''contentLength'', JNum (of_nat (length txt))),
                                (''proxy'', JObj [(''country'', JStr (country proxy)), (''type'', JStr (js ''mobile''))]),
                                (''payment'', JObj
                                  [(''txHash'', JStr (txHash payment)),
                                   (''network'', JStr (case network payment of Solana \<Rightarrow> js ''solana'' | Base \<Rightarrow> js ''base'')),
                                   (''amount'', num_or_undefined (amount verification)),
                                   (''settled'', JBool True)])])
                             200,
                           calls = made @ [CallGetProxy, CallProxyFetch url, CallResponseText],
                           world = w'\<rparr>)))))"

text \<open>
  The handler of \<^verbatim>\<open>GET /run\<close>, lines 46 to 135. \<open>env\<close> is
  \<^verbatim>\<open>process.env.WALLET_ADDRESS\<close>, \<open>c\<close> the request context, \<open>w\<close> the world before.
\<close>

definition run :: "'w collaborators \<Rightarrow> js_string option \<Rightarrow> Context \<Rightarrow> 'w \<Rightarrow> 'w Result" where
  "run d env c w =
     (case truthy env of
        None \<Rightarrow>
          \<lparr>response = c_json []
             (JObj [(''error'', JStr (js ''Service misconfigured: WALLET_ADDRESS not set''))]) 500,
           calls = [], world = w\<rparr>
      | Some walletAddress \<Rightarrow>
         (case extractPayment d c of
            None \<Rightarrow>
              \<lparr>response = c_json []
                 (build402Response d (js ''/api/run'') DESCRIPTION PRICE_USDC walletAddress OUTPUT_SCHEMA)
                 402,
               calls = [CallExtractPayment, CallBuild402Response], world = w\<rparr>
          | Some payment \<Rightarrow>
             (case verifyPayment d payment walletAddress PRICE_USDC w of
                (verification, w1) \<Rightarrow>
                  let made = [CallExtractPayment, CallVerifyPayment payment]
                  in if \<not> valid verification
                     then \<lparr>response = c_json []
                             (JObj [(''error'', JStr (js ''Payment verification failed'')),
                                    (''reason'', str_or_undefined (error verification)),
                                    (''hint'', JStr (js ''Ensure the transaction is confirmed and sends the correct USDC amount to the recipient wallet.''))])
                             402,
                           calls = made, world = w1\<rparr>
                     else
                       (case truthy (query c ''url'') of
                          None \<Rightarrow>
                            \<lparr>response = c_json []
                               (JObj [(''error'', JStr (js ''Missing required parameter: ?url=<target_url>''))])
                               400,
                             calls = made, world = w1\<rparr>
                        | Some url \<Rightarrow>
                           (case validate_url d url of
                              Some err \<Rightarrow> \<lparr>response = c_json [] err 400, calls = made, world = w1\<rparr>
                            | None \<Rightarrow> step4 d payment verification url made w1)))))"

section \<open>\<^verbatim>\<open>src/payment.ts\<close>, which is not among the sources\<close>

subsection \<open>Replay Guard\<close>

datatype consumed = FirstUse | AlreadyUsed

type_synonym replay_store = "Network \<times> js_string \<rightharpoonup> nat"

text \<open>
  Modelled from the spec: the Replay Guard of \<^verbatim>\<open>src/payment.ts\<close>, whose code is missing.
  Section 3: a composite key (network, transactionId) is mapped to its consumption
  timestamp, and no entry is ever removed or updated. Section 4.6:
  \<^verbatim>\<open>consume(network, transactionId)\<close> answers FirstUse or AlreadyUsed in one atomic check
  and set. \<open>now\<close> is the clock at the call.
\<close>

definition consume :: "nat \<Rightarrow> Network \<Rightarrow> js_string \<Rightarrow> replay_store \<Rightarrow> consumed \<times> replay_store" where
  "consume now n tx store =
     (case store (n, tx) of
        None \<Rightarrow> (FirstUse, store((n, tx) \<mapsto> now))
      | Some _ \<Rightarrow> (AlreadyUsed, store))"

text \<open>
  A history of the process: the \<open>consume\<close> calls in the order in which they run (each
  is atomic, so every interleaving of requests is such a list), with the answer to each.
\<close>

fun consume_all ::
  "(nat \<times> Network \<times> js_string) list \<Rightarrow> replay_store \<Rightarrow> consumed list \<times> replay_store" where
  "consume_all [] store = ([], store)"
| "consume_all ((now, n, tx) # rest) store =
     (case consume now n tx store of
        (r, store') \<Rightarrow>
          (case consume_all rest store' of (rs, store'') \<Rightarrow> (r # rs, store'')))"

text \<open>The answers given to the calls for one pair, in order.\<close>

fun answers_for ::
  "Network \<times> js_string \<Rightarrow> (nat \<times> Network \<times> js_string) list \<Rightarrow> consumed list \<Rightarrow> consumed list" where
  "answers_for k ((now, k') # cs) (r # rs) =
     (if k' = k then r # answers_for k cs rs else answers_for k cs rs)"
| "answers_for k _ _ = []"

subsection \<open>Chain Verifier\<close>

datatype reason =
    Pending
  | TxNotFound
  | AmountMismatch
  | RecipientMismatch
  | RpcUnavailable
  | Replayed

datatype outcome = Accepted | Rejected reason

record VerificationResult =
  outcome :: outcome
  payer :: "js_string option"
  recipient :: "js_string option"
  amountUsd :: "rat option"

text \<open>
  What the RPC of a chain answers for a transaction id, after decoding: a failure, no
  such transaction, or the transfer of the stable-value token it carries (payer,
  recipient, amount in USD).
\<close>

datatype rpc_reply =
    RpcError
  | NotFound
  | Transfer js_string js_string rat

type_synonym chain = "Network \<Rightarrow> js_string \<Rightarrow> rpc_reply"

text \<open>
  Modelled from the spec: the tolerance of the Chain Verifier of \<^verbatim>\<open>src/payment.ts\<close>, whose
  code is missing. Section 4.5: both variants accept when
  \<^verbatim>\<open>amountUsd \<ge> requiredPriceUsd \<times> 0.98\<close>. Amounts are exact rationals here.
\<close>

definition within_tolerance :: "rat \<Rightarrow> rat \<Rightarrow> bool" where
  "within_tolerance usd requiredPriceUsd = (usd \<ge> requiredPriceUsd * (98 / 100))"

text \<open>
  Modelled from the spec: a result of the Chain Verifier of \<^verbatim>\<open>src/payment.ts\<close> that has
  no transaction to report on. Section 3: the outcome is Accepted or Rejected with a
  reason.
\<close>

definition rejected :: "reason \<Rightarrow> VerificationResult" where
  "rejected r = \<lparr>outcome = Rejected r, payer = None, recipient = None, amountUsd = None\<rparr>"

text \<open>
  Modelled from the spec: the Solana variant of the Chain Verifier of \<^verbatim>\<open>src/payment.ts\<close>,
  whose code is missing. Section 4.5: not found is Pending; if found, an amount below
  tolerance is AmountMismatch and a recipient mismatch is RecipientMismatch; RPC errors
  are RpcUnavailable.
\<close>

fun verify_solana :: "rpc_reply \<Rightarrow> js_string \<Rightarrow> rat \<Rightarrow> VerificationResult" where
  "verify_solana RpcError requiredRecipient requiredPriceUsd = rejected RpcUnavailable"
| "verify_solana NotFound requiredRecipient requiredPriceUsd = rejected Pending"
| "verify_solana (Transfer sender dest usd) requiredRecipient requiredPriceUsd =
     \<lparr>outcome =
        (if \<not> within_tolerance usd requiredPriceUsd then Rejected AmountMismatch
         else if dest \<noteq> requiredRecipient then Rejected RecipientMismatch
         else Accepted),
      payer = Some sender, recipient = Some dest, amountUsd = Some usd\<rparr>"

text \<open>
  Modelled from the spec: the Base/EVM variant of the Chain Verifier of
  \<^verbatim>\<open>src/payment.ts\<close>, whose code is missing. Section 4.5: the destination of the transfer
  event must equal the required recipient, the value is converted to USD, and the same
  tolerance applies; RPC errors are RpcUnavailable. Section 7 names TxNotFound for a
  transaction that is not there.
\<close>

fun verify_base :: "rpc_reply \<Rightarrow> js_string \<Rightarrow> rat \<Rightarrow> VerificationResult" where
  "verify_base RpcError requiredRecipient requiredPriceUsd = rejected RpcUnavailable"
| "verify_base NotFound requiredRecipient requiredPriceUsd = rejected TxNotFound"
| "verify_base (Transfer sender dest usd) requiredRecipient requiredPriceUsd =
     \<lparr>outcome =
        (if dest \<noteq> requiredRecipient then Rejected RecipientMismatch
         else if \<not> within_tolerance usd requiredPriceUsd then Rejected AmountMismatch
         else Accepted),
      payer = Some sender, recipient = Some dest, amountUsd = Some usd\<rparr>"

text \<open>
  Modelled from the spec: \<^verbatim>\<open>verify(claim, requiredRecipient, requiredPriceUsd)\<close> of
  \<^verbatim>\<open>src/payment.ts\<close>, whose code is missing. Section 9: the orchestrator dispatches on the
  network tag to the variant.
\<close>

definition verify :: "chain \<Rightarrow> PaymentInfo \<Rightarrow> js_string \<Rightarrow> rat \<Rightarrow> VerificationResult" where
  "verify rpc claim requiredRecipient requiredPriceUsd =
     (case network claim of
        Solana \<Rightarrow> verify_solana (rpc Solana (txHash claim)) requiredRecipient requiredPriceUsd
      | Base \<Rightarrow> verify_base (rpc Base (txHash claim)) requiredRecipient requiredPriceUsd)"

subsection \<open>Gate Orchestrator\<close>

text \<open>
  Modelled from the spec: the reason codes of \<^verbatim>\<open>src/payment.ts\<close>, whose code is missing.
  Section 7: every denial carries a stable machine-readable reason code; the codes here
  are the names of the taxonomy.
\<close>

fun reason_code :: "reason \<Rightarrow> js_string" where
  "reason_code Pending = js ''Pending''"
| "reason_code TxNotFound = js ''TxNotFound''"
| "reason_code AmountMismatch = js ''AmountMismatch''"
| "reason_code RecipientMismatch = js ''RecipientMismatch''"
| "reason_code RpcUnavailable = js ''RpcUnavailable''"
| "reason_code Replayed = js ''AlreadyUsed''"

text \<open>
  Modelled from the spec: \<^verbatim>\<open>verifyPayment\<close> of \<^verbatim>\<open>src/payment.ts\<close>, whose code is missing.
  Section 4.7, transitions 3 and 4: the claim goes to the matching Chain Verifier, any
  outcome but Accepted is a denial with its reason; then the Replay Guard consumes the
  pair, AlreadyUsed is a denial and FirstUse a grant. Section 4.6: \<open>consume\<close> is called
  only after Accepted. The result carries the fields the handler reads.
\<close>

definition verifyPayment_spec ::
  "chain \<Rightarrow> nat \<Rightarrow> PaymentInfo \<Rightarrow> js_string \<Rightarrow> rat \<Rightarrow> replay_store \<Rightarrow> PaymentVerification \<times> replay_store" where
  "verifyPayment_spec rpc now claim requiredRecipient requiredPriceUsd store =
     (let r = verify rpc claim requiredRecipient requiredPriceUsd
      in case outcome r of
           Rejected why \<Rightarrow>
             (\<lparr>valid = False, error = Some (reason_code why), amount = amountUsd r\<rparr>, store)
         | Accepted \<Rightarrow>
            (case consume now (network claim) (txHash claim) store of
               (AlreadyUsed, store') \<Rightarrow>
                 (\<lparr>valid = False, error = Some (reason_code Replayed), amount = amountUsd r\<rparr>, store')
             | (FirstUse, store') \<Rightarrow>
                 (\<lparr>valid = True, error = None, amount = amountUsd r\<rparr>, store')))"

text \<open>
  Modelled from the spec: \<^verbatim>\<open>build402Response\<close> of \<^verbatim>\<open>src/payment.ts\<close>, whose code is missing.
  Section 6: the body on a missing payment is
  \<^verbatim>\<open>{ price, wallet, networks: [...], endpoint, description, schema }\<close>; the networks are
  the two of the data model. The parameters are in the order of the call in
  \<^verbatim>\<open>src/service.ts\<close>.
\<close>

definition build402Response_spec :: "js_string \<Rightarrow> js_string \<Rightarrow> rat \<Rightarrow> js_string \<Rightarrow> json \<Rightarrow> json" where
  "build402Response_spec endpoint description price wallet schema =
     JObj [(''price'', JNum price),
           (''wallet'', JStr wallet),
           (''networks'', JArr [JStr (js ''solana''), JStr (js ''base'')]),
           (''endpoint'', JStr endpoint),
           (''description'', JStr description),
           (''schema'', schema)]"

section \<open>Observations on a result and on a history\<close>

text \<open>The urls handed to \<^verbatim>\<open>proxyFetch\<close> and the claims handed to \<^verbatim>\<open>verifyPayment\<close> in a log.\<close>

definition outbound_fetches :: "call list \<Rightarrow> js_string list" where
  "outbound_fetches cs = concat (map (\<lambda>c. case c of CallProxyFetch u \<Rightarrow> [u] | _ \<Rightarrow> []) cs)"

definition verifications :: "call list \<Rightarrow> PaymentInfo list" where
  "verifications cs = concat (map (\<lambda>c. case c of CallVerifyPayment p \<Rightarrow> [p] | _ \<Rightarrow> []) cs)"

text \<open>The calls of a history that are for one pair.\<close>

definition calls_for ::
  "Network \<times> js_string \<Rightarrow> (nat \<times> Network \<times> js_string) list \<Rightarrow> (nat \<times> Network \<times> js_string) list" where
  "calls_for k cs = filter (\<lambda>c. snd c = k) cs"

text \<open>
  The rejection rule in the words of section 4.1 of the specification, on the protocol
  and the hostname of a URL.
\<close>

definition ssrf_rejects :: "string \<Rightarrow> string \<Rightarrow> bool" where
  "ssrf_rejects proto host =
     ((proto \<noteq> ''http:'' \<and> proto \<noteq> ''https:'') \<or>
      host = ''localhost'' \<or>
      prefix ''127.'' host \<or>
      prefix ''10.'' host \<or>
      prefix ''192.168.'' host \<or>
      prefix ''172.'' host \<or>
      host = ''169.254.169.254'' \<or>
      suffix ''.local'' host \<or>
      suffix ''.internal'' host)"

section \<open>A concrete deployment for the examples\<close>

text \<open>
  Stand-ins for the collaborators, used only to run the handler on concrete requests:
  a chain that knows two Solana transactions to the wallet (one of the price, one of a
  fifth of it), a claim extractor that reads the \<^verbatim>\<open>Payment-Signature\<close> header, the URL
  constructor tabulated on the urls of the examples, and an upstream that serves two of
  them, fails while its body is read on one and is unreachable otherwise.
\<close>

definition stub_wallet :: js_string where
  "stub_wallet = js ''wallet-1''"

definition stub_chain :: chain where
  "stub_chain n tx =
     (if n = Solana \<and> tx = js ''tx-1'' then Transfer (js ''payer-1'') stub_wallet (5 / 1000)
      else if n = Solana \<and> tx = js ''tx-2'' then Transfer (js ''payer-1'') stub_wallet (1 / 1000)
      else NotFound)"

definition stub_extractPayment :: "Context \<Rightarrow> PaymentInfo option" where
  "stub_extractPayment c =
     map_option (\<lambda>h. \<lparr>txHash = h, network = Solana\<rparr>) (map_of (req_headers c) ''Payment-Signature'')"

definition stub_URL :: "js_string \<Rightarrow> URL option" where
  "stub_URL u = map_of
     [(js ''http://127.0.0.1/'', \<lparr>protocol = ''http:'', hostname = ''127.0.0.1''\<rparr>),
      (js ''http://169.254.169.254/latest/meta-data'',
         \<lparr>protocol = ''http:'', hostname = ''169.254.169.254''\<rparr>),
      (js ''https://svc.internal'', \<lparr>protocol = ''https:'', hostname = ''svc.internal''\<rparr>),
      (js ''https://example.com'', \<lparr>protocol = ''https:'', hostname = ''example.com''\<rparr>),
      (js ''https://big.example.com/'', \<lparr>protocol = ''https:'', hostname = ''big.example.com''\<rparr>),
      (js ''https://cut.example.com/'', \<lparr>protocol = ''https:'', hostname = ''cut.example.com''\<rparr>),
      (js ''https://down.example.com/'', \<lparr>protocol = ''https:'', hostname = ''down.example.com''\<rparr>),
      (js ''ftp://example.com/'', \<lparr>protocol = ''ftp:'', hostname = ''example.com''\<rparr>)] u"

definition stub_proxyFetch ::
  "js_string \<Rightarrow> replay_store \<Rightarrow> (thrown + FetchResponse) \<times> replay_store" where
  "stub_proxyFetch url w =
     (if url = js ''https://example.com''
      then (Inr \<lparr>resp_status = 200, resp_text = Inr (js ''<html>ok</html>'')\<rparr>, w)
      else if url = js ''https://big.example.com/''
      then (Inr \<lparr>resp_status = 200, resp_text = Inr (replicate 60000 0x61)\<rparr>, w)
      else if url = js ''https://cut.example.com/''
      then (Inr \<lparr>resp_status = 200, resp_text = Inl (Error (js ''terminated''))\<rparr>, w)
      else (Inl (Error (js ''Proxy fetch failed after 3 attempts'')), w))"

definition stub :: "replay_store collaborators" where
  "stub = \<lparr>extractPayment = stub_extractPayment,
           verifyPayment = verifyPayment_spec stub_chain 1700000000,
           build402Response = build402Response_spec,
           new_URL = stub_URL,
           invalid_header = (\<lambda>name v. Error (js ''Invalid header value'')),
           getProxy = Inr \<lparr>country = js ''US''\<rparr>,
           proxyFetch = stub_proxyFetch\<rparr>"

definition stub_without_proxy :: "replay_store collaborators" where
  "stub_without_proxy = stub\<lparr>getProxy := Inl (Error (js ''Proxy credentials are not configured''))\<rparr>"

text \<open>A request with an optional \<^verbatim>\<open>Payment-Signature\<close> header and an optional \<^verbatim>\<open>url\<close> parameter.\<close>

definition request :: "js_string option \<Rightarrow> js_string option \<Rightarrow> Context" where
  "request sig url =
     \<lparr>req_headers = (case sig of None \<Rightarrow> [] | Some h \<Rightarrow> [(''Payment-Signature'', h)]),
      req_query = (case url of None \<Rightarrow> [] | Some u \<Rightarrow> [(''url'', u)])\<rparr>"

definition tx1 :: PaymentInfo where
  "tx1 = \<lparr>txHash = js ''tx-1'', network = Solana\<rparr>"

definition tx2 :: PaymentInfo where
  "tx2 = \<lparr>txHash = js ''tx-2'', network = Solana\<rparr>"

section \<open>The examples, evaluated\<close>

lemmas stub_defs =
  stub_def stub_extractPayment_def stub_chain_def stub_URL_def stub_proxyFetch_def
  stub_wallet_def request_def tx1_def tx2_def verifyPayment_spec_def verify_def consume_def
  within_tolerance_def rejected_def build402Response_spec_def

lemma stub_wallet_configured: "truthy (Some stub_wallet) = Some stub_wallet"
  by (simp add: truthy_def stub_wallet_def js_def)

lemma stub_extracts:
  "extractPayment stub (request (Some (js ''tx-1'')) u) = Some tx1"
  "extractPayment stub (request (Some (js ''tx-2'')) u) = Some tx2"
  "extractPayment stub (request None u) = None"
  by (simp_all add: stub_def stub_extractPayment_def request_def tx1_def tx2_def)

lemma tx1_parts: "txHash tx1 = js ''tx-1''" "network tx1 = Solana"
  by (simp_all add: tx1_def)

lemma stub_verifies_tx1:
  "verifyPayment stub tx1 stub_wallet PRICE_USDC Map.empty =
     (\<lparr>valid = True, error = None, amount = Some (5 / 1000)\<rparr>,
      [(Solana, js ''tx-1'') \<mapsto> 1700000000])"
  by (simp add: stub_defs PRICE_USDC_def js_def)

lemma stub_refuses_replay:
  "verifyPayment stub tx1 stub_wallet PRICE_USDC [(Solana, js ''tx-1'') \<mapsto> 1700000000] =
     (\<lparr>valid = False, error = Some (js ''AlreadyUsed''), amount = Some (5 / 1000)\<rparr>,
      [(Solana, js ''tx-1'') \<mapsto> 1700000000])"
  by (simp add: stub_defs PRICE_USDC_def js_def)


lemma valid_tx1: "valid \<lparr>valid = True, error = None, amount = Some (5 / 1000)\<rparr>"
  by simp


lemma url_given: "u \<noteq> [] \<Longrightarrow> truthy (query (request h (Some u)) ''url'') = Some u"
  by (simp add: truthy_def query_def request_def)

lemma url_missing: "truthy (query (request h None) ''url'') = None"
  by (simp add: truthy_def query_def request_def)

lemma nonempty_urls:
  "js ''https://example.com'' \<noteq> []" "js ''https://big.example.com/'' \<noteq> []"
  "js ''https://cut.example.com/'' \<noteq> []" "js ''https://down.example.com/'' \<noteq> []"
  "js ''http://127.0.0.1/'' \<noteq> []" "js ''http://169.254.169.254/latest/meta-data'' \<noteq> []"
  "js ''https://svc.internal'' \<noteq> []" "js ''ftp://example.com/'' \<noteq> []"
  by (simp_all add: js_def)

lemma stub_parses:
  "new_URL stub (js ''https://example.com'') = Some \<lparr>protocol = ''https:'', hostname = ''example.com''\<rparr>"
  "new_URL stub (js ''http://127.0.0.1/'') = Some \<lparr>protocol = ''http:'', hostname = ''127.0.0.1''\<rparr>"
  "new_URL stub (js ''http://169.254.169.254/latest/meta-data'')
     = Some \<lparr>protocol = ''http:'', hostname = ''169.254.169.254''\<rparr>"
  "new_URL stub (js ''https://svc.internal'') = Some \<lparr>protocol = ''https:'', hostname = ''svc.internal''\<rparr>"
  "new_URL stub (js ''ftp://example.com/'') = Some \<lparr>protocol = ''ftp:'', hostname = ''example.com''\<rparr>"
  by (simp_all add: stub_def stub_URL_def js_def)

lemma lower_hosts:
  "toLowerCase ''example.com'' = ''example.com''"
  "toLowerCase ''127.0.0.1'' = ''127.0.0.1''"
  "toLowerCase ''169.254.169.254'' = ''169.254.169.254''"
  "toLowerCase ''svc.internal'' = ''svc.internal''"
  by (simp_all add: toLowerCase_def lower_char_def)

lemma rule_on_examples:
  "\<not> ssrf_rejects ''https:'' ''example.com''"
  "ssrf_rejects ''http:'' ''127.0.0.1''"
  "ssrf_rejects ''http:'' ''169.254.169.254''"
  "ssrf_rejects ''https:'' ''svc.internal''"
  "ssrf_rejects ''ftp:'' ''example.com''"
  by (simp_all add: ssrf_rejects_def suffix_to_prefix)

lemma stub_passes:
  "validate_url stub (js ''https://example.com'') = None"
  "validate_url stub (js ''https://big.example.com/'') = None"
  "validate_url stub (js ''https://cut.example.com/'') = None"
  "validate_url stub (js ''https://down.example.com/'') = None"
  by (simp_all add: validate_url_def stub_def stub_URL_def toLowerCase_def lower_char_def
      startsWith_def endsWith_def suffix_to_prefix js_def)

lemma stub_proxy: "getProxy stub = Inr \<lparr>country = js ''US''\<rparr>"
  by (simp add: stub_def)

lemma stub_fetches:
  "proxyFetch stub (js ''https://example.com'') s =
     (Inr \<lparr>resp_status = 200, resp_text = Inr (js ''<html>ok</html>'')\<rparr>, s)"
  "proxyFetch stub (js ''https://big.example.com/'') s =
     (Inr \<lparr>resp_status = 200, resp_text = Inr (replicate 60000 0x61)\<rparr>, s)"
  "proxyFetch stub (js ''https://cut.example.com/'') s =
     (Inr \<lparr>resp_status = 200, resp_text = Inl (Error (js ''terminated''))\<rparr>, s)"
  "proxyFetch stub (js ''https://down.example.com/'') s =
     (Inl (Error (js ''Proxy fetch failed after 3 attempts'')), s)"
  by (simp_all add: stub_def stub_proxyFetch_def js_def)

lemma no_fetch_yet: "outbound_fetches [CallExtractPayment, CallVerifyPayment p] = []"
  by (simp add: outbound_fetches_def)

lemma header_true: "header_value (js ''true'') = Some (js ''true'')"
  by (simp add: header_value_def normalize_value_def http_whitespace_def js_def)

lemma header_tx1:
  "header_value (txHash tx1) = Some (txHash tx1)"
  "header_value (js ''tx-1'') = Some (js ''tx-1'')"
  by (simp_all add: tx1_def header_value_def normalize_value_def http_whitespace_def js_def)

lemma stringify_OUTPUT_SCHEMA: "stringify OUTPUT_SCHEMA = OUTPUT_SCHEMA" "OUTPUT_SCHEMA \<noteq> JUndefined"
  by (simp_all add: OUTPUT_SCHEMA_def)

lemma stub_body:
  "resp_text \<lparr>resp_status = 200, resp_text = Inr (js ''<html>ok</html>'')\<rparr> = Inr (js ''<html>ok</html>'')"
  by simp

lemma small_body: "length (js ''<html>ok</html>'') = 15"
  by (simp add: js_def)

section \<open>The handler, branch by branch\<close>

lemma run_configured:
  assumes "truthy env = Some wallet" "extractPayment d c = Some p"
    and "verifyPayment d p wallet PRICE_USDC w = (v, w1)"
  shows "run d env c w =
    (if \<not> valid v
     then \<lparr>response = c_json []
             (JObj [(''error'', JStr (js ''Payment verification failed'')),
                    (''reason'', str_or_undefined (error v)),
                    (''hint'', JStr (js ''Ensure the transaction is confirmed and sends the correct USDC amount to the recipient wallet.''))])
             402,
           calls = [CallExtractPayment, CallVerifyPayment p], world = w1\<rparr>
     else
       (case truthy (query c ''url'') of
          None \<Rightarrow>
            \<lparr>response = c_json []
               (JObj [(''error'', JStr (js ''Missing required parameter: ?url=<target_url>''))])
               400,
             calls = [CallExtractPayment, CallVerifyPayment p], world = w1\<rparr>
        | Some url \<Rightarrow>
           (case validate_url d url of
              Some err \<Rightarrow>
                \<lparr>response = c_json [] err 400,
                 calls = [CallExtractPayment, CallVerifyPayment p], world = w1\<rparr>
            | None \<Rightarrow> step4 d p v url [CallExtractPayment, CallVerifyPayment p] w1)))"
  using assms by (simp add: run_def Let_def)

lemma run_validated:
  assumes "truthy env = Some wallet" "extractPayment d c = Some p"
    and "verifyPayment d p wallet PRICE_USDC w = (v, w1)" "valid v"
    and "truthy (query c ''url'') = Some url" "validate_url d url = None"
  shows "run d env c w = step4 d p v url [CallExtractPayment, CallVerifyPayment p] w1"
  using assms by (simp add: run_configured)

lemma validate_url_parsed:
  assumes "new_URL d url = Some parsed"
  shows "(validate_url d url \<noteq> None) = ssrf_rejects (protocol parsed) (toLowerCase (hostname parsed))"
  using assms
  by (simp add: validate_url_def ssrf_rejects_def startsWith_def endsWith_def Let_def)

lemma validate_url_error:
  "validate_url d url = Some err \<Longrightarrow> \<exists>m. err = JObj [(''error'', JStr m)]"
  by (auto simp: validate_url_def Let_def split: option.splits if_splits)

text \<open>
  A value that a header holds is stored as it stands when it is set again: so is a
  transaction id that was read from a header of the request.
\<close>

lemma last_dropWhile: "dropWhile P xs \<noteq> [] \<Longrightarrow> last (dropWhile P xs) = last xs"
  by (induction xs) (auto split: if_splits)

lemma normalize_value_idem: "normalize_value (normalize_value v) = normalize_value v"
proof -
  define a where "a = dropWhile http_whitespace v"
  define b where "b = dropWhile http_whitespace (rev a)"
  have keep: "dropWhile http_whitespace (rev b) = rev b"
  proof (cases "b = []")
    case True
    then show ?thesis by simp
  next
    case False
    then have "last b = last (rev a)"
      unfolding b_def by (rule last_dropWhile)
    moreover have "a \<noteq> []"
      using False by (auto simp: b_def)
    ultimately have "hd (rev b) = hd a"
      using False by (simp add: hd_rev last_rev)
    moreover have "\<not> http_whitespace (hd a)"
      using \<open>a \<noteq> []\<close> unfolding a_def by (rule hd_dropWhile)
    ultimately show ?thesis
      by (simp add: dropWhile_eq_self_iff)
  qed
  have "dropWhile http_whitespace b = b"
    unfolding b_def by simp
  then show ?thesis
    using keep by (simp add: normalize_value_def a_def [symmetric] b_def [symmetric])
qed

lemma set_normalize_value: "set (normalize_value v) \<subseteq> set v"
  by (auto simp: normalize_value_def dest!: set_dropWhileD)

lemma header_value_idem: "header_value v = Some t \<Longrightarrow> header_value t = Some t"
proof -
  assume h: "header_value v = Some t"
  then have t: "t = normalize_value v" and bytes: "\<not> list_ex (\<lambda>u. 0xFF < u) v"
    and clean: "\<not> list_ex (\<lambda>u. u = 0x00 \<or> u = 0x0A \<or> u = 0x0D) t"
    by (auto simp: header_value_def Let_def split: if_splits)
  have "\<not> list_ex (\<lambda>u. 0xFF < u) t"
    using bytes set_normalize_value [of v] unfolding t list_ex_iff by blast
  then show ?thesis
    using clean by (simp add: header_value_def t normalize_value_idem)
qed

lemma c_header_stores:
  "header_value v = Some t \<Longrightarrow> c_header d hs name v = Inr (hs @ [(name, t)])"
  by (simp add: c_header_def)

lemma step4_succeeds:
  assumes "getProxy d = Inr proxy"
    and "proxyFetch d url w1 = (Inr resp, w2)"
    and "resp_text resp = Inr txt"
    and "header_value (txHash p) = Some t"
  shows "step4 d p v url made w1 =
    \<lparr>response = c_json
       [(''X-Payment-Settled'', js ''true''), (''X-Payment-TxHash'', t)]
       (JObj
         [(''url'', JStr url),
          (''status'', JNum (of_int (resp_status resp))),
          (''text'', JStr (if length txt > maxLen then take maxLen txt else txt)),
          (''contentLength'', JNum (of_nat (length txt))),
          (''proxy'', JObj [(''country'', JStr (country proxy)), (''type'', JStr (js ''mobile''))]),
          (''payment'', JObj
            [(''txHash'', JStr (txHash p)),
             (''network'', JStr (case network p of Solana \<Rightarrow> js ''solana'' | Base \<Rightarrow> js ''base'')),
             (''amount'', num_or_undefined (amount v)),
             (''settled'', JBool True)])])
       200,
     calls = made @ [CallGetProxy, CallProxyFetch url, CallResponseText], world = w2\<rparr>"
  using assms by (simp add: step4_def c_header_stores header_true)

lemma stringify_property:
  "v \<noteq> JUndefined \<Longrightarrow>
   stringify_properties ((k, v) # kvs) = (k, stringify v) # stringify_properties kvs"
  by (cases v) simp_all

lemma stringify_payment:
  "stringify_properties ((k, num_or_undefined a) # kvs) =
   (case a of None \<Rightarrow> [] | Some x \<Rightarrow> [(k, JNum x)]) @ stringify_properties kvs"
  by (cases a) (simp_all add: num_or_undefined_def)

text \<open>
  When \<^verbatim>\<open>c.header\<close> refuses the transaction id, the handler answers 502 although the
  fetch succeeded, and the first header is already on the context.
\<close>

lemma step4_header_refused:
  assumes "getProxy d = Inr proxy"
    and "proxyFetch d url w1 = (Inr resp, w2)"
    and "resp_text resp = Inr txt"
    and "header_value (txHash p) = None"
  shows "response (step4 d p v url made w1) =
    failed [(''X-Payment-Settled'', js ''true'')] (invalid_header d ''X-Payment-TxHash'' (txHash p))"
  using assms by (simp add: step4_def c_header_def header_true)

text \<open>
  The Gate Orchestrator of the specification never rejects without a reason, and without an error
  the \<^verbatim>\<open>reason\<close> property does not reach the body.
\<close>

lemma verifyPayment_spec_gives_reason:
  "\<not> valid (fst (verifyPayment_spec rpc now claim wallet price store)) \<Longrightarrow>
   error (fst (verifyPayment_spec rpc now claim wallet price store)) \<noteq> None"
  by (auto simp: verifyPayment_spec_def consume_def Let_def split: outcome.splits option.splits)

lemma undefined_reason_is_left_out:
  assumes "truthy env = Some wallet" "extractPayment d c = Some p"
    and "verifyPayment d p wallet PRICE_USDC w = (v, w1)" "\<not> valid v" "error v = None"
  shows "properties (body (response (run d env c w))) = [''error'', ''hint'']"
  using assms by (simp add: run_configured c_json_def str_or_undefined_def)

lemma step4_status:
  "status (response (step4 d p v url made w)) \<in> {200, 502}"
  by (simp add: step4_def failed_def c_json_def c_header_def split: sum.splits prod.splits option.splits)


section \<open>Claims on the handler\<close>

text \<open>
  Claim C8. When \<^verbatim>\<open>WALLET_ADDRESS\<close> is unset (or set to the empty string, which is falsy
  as well), whatever the request and the collaborators, the handler answers 500 with the
  misconfiguration error as its body, has called none of its collaborators and has left
  the world as it was; it returns a response (the function is total), so only the
  request fails.
\<close>

theorem unset_wallet_is_500:
  "run d None c w =
     \<lparr>response =
        \<lparr>status = 500, headers = [],
         body = JObj [(''error'', JStr (js ''Service misconfigured: WALLET_ADDRESS not set''))]\<rparr>,
      calls = [], world = w\<rparr> \<and>
   run d (Some []) c w = run d None c w"
  by (simp add: run_def truthy_def c_json_def)

theorem unset_wallet_is_500_witness:
  "status (response (run stub None (request (Some (js ''tx-1'')) (Some (js ''https://example.com''))) Map.empty)) = 500 \<and>
   properties (body (response (run stub None (request (Some (js ''tx-1'')) (Some (js ''https://example.com''))) Map.empty))) = [''error''] \<and>
   calls (run stub None (request (Some (js ''tx-1'')) (Some (js ''https://example.com''))) Map.empty) = [] \<and>
   world (run stub None (request (Some (js ''tx-1'')) (Some (js ''https://example.com''))) Map.empty) (Solana, js ''tx-1'') = None"
  using unset_wallet_is_500 [of stub "request (Some (js ''tx-1'')) (Some (js ''https://example.com''))" Map.empty]
  by simp

text \<open>
  Claim C5. With the wallet configured and no payment claim extracted, the handler
  answers 402 with the payment instructions as its body: the price, the wallet, the
  supported networks, the endpoint, the description and the output schema, and no
  \<^verbatim>\<open>error\<close> property. It has called the extractor and the builder of the instructions
  only: no verification and no outbound fetch.
\<close>

theorem no_claim_is_402_with_instructions:
  assumes "truthy env = Some wallet"
    and "extractPayment d c = None"
    and "build402Response d = build402Response_spec"
  shows "status (response (run d env c w)) = 402 \<and>
         body (response (run d env c w)) =
           JObj [(''price'', JNum PRICE_USDC),
                 (''wallet'', JStr wallet),
                 (''networks'', JArr [JStr (js ''solana''), JStr (js ''base'')]),
                 (''endpoint'', JStr (js ''/api/run'')),
                 (''description'', JStr DESCRIPTION),
                 (''schema'', OUTPUT_SCHEMA)] \<and>
         property (body (response (run d env c w))) ''error'' = None \<and>
         calls (run d env c w) = [CallExtractPayment, CallBuild402Response] \<and>
         verifications (calls (run d env c w)) = [] \<and>
         outbound_fetches (calls (run d env c w)) = [] \<and>
         world (run d env c w) = w"
  using assms
  by (simp add: run_def c_json_def build402Response_spec_def verifications_def outbound_fetches_def
      stringify_OUTPUT_SCHEMA stringify_property)

theorem no_claim_is_402_with_instructions_witness:
  "truthy (Some stub_wallet) = Some stub_wallet \<and>
   extractPayment stub (request None (Some (js ''https://example.com''))) = None \<and>
   build402Response stub = build402Response_spec \<and>
   status (response (run stub (Some stub_wallet) (request None (Some (js ''https://example.com''))) Map.empty)) = 402 \<and>
   properties (body (response (run stub (Some stub_wallet) (request None (Some (js ''https://example.com''))) Map.empty)))
     = [''price'', ''wallet'', ''networks'', ''endpoint'', ''description'', ''schema''] \<and>
   property (body (response (run stub (Some stub_wallet) (request None (Some (js ''https://example.com''))) Map.empty))) ''price''
     = Some (JNum (5 / 1000)) \<and>
   calls (run stub (Some stub_wallet) (request None (Some (js ''https://example.com''))) Map.empty)
     = [CallExtractPayment, CallBuild402Response]"
proof -
  have b: "build402Response stub = build402Response_spec"
    by (simp add: stub_def)
  show ?thesis
    using no_claim_is_402_with_instructions
      [OF stub_wallet_configured stub_extracts(3) [of "Some (js ''https://example.com'')"] b,
       of Map.empty]
    by (simp add: stub_wallet_configured stub_extracts b PRICE_USDC_def)
qed



text \<open>
  Claim C9. The payment is verified before the url is looked at: with a claim that
  \<^verbatim>\<open>verifyPayment\<close> finds valid and a url that is missing, empty or refused by the
  validation, the handler answers 400 after the one call of \<^verbatim>\<open>verifyPayment\<close>, without
  any fetch, and the world it leaves is the one \<^verbatim>\<open>verifyPayment\<close> left: what the
  verification consumed stays consumed.
\<close>

theorem verification_precedes_url_validation:
  assumes "truthy env = Some wallet"
    and "extractPayment d c = Some p"
    and "verifyPayment d p wallet PRICE_USDC w = (v, w1)"
    and "valid v"
    and "truthy (query c ''url'') = None \<or>
         (\<exists>url. truthy (query c ''url'') = Some url \<and> validate_url d url \<noteq> None)"
  shows "status (response (run d env c w)) = 400 \<and>
         properties (body (response (run d env c w))) = [''error''] \<and>
         calls (run d env c w) = [CallExtractPayment, CallVerifyPayment p] \<and>
         verifications (calls (run d env c w)) = [p] \<and>
         outbound_fetches (calls (run d env c w)) = [] \<and>
         world (run d env c w) = w1"
proof (cases "truthy (query c ''url'')")
  case None
  then show ?thesis
    using assms(1-4)
    by (simp add: run_configured c_json_def verifications_def outbound_fetches_def)
next
  case (Some url)
  then obtain err where err: "validate_url d url = Some err"
    using assms(5) by auto
  from validate_url_error [OF err] obtain m where "err = JObj [(''error'', JStr m)]"
    by blast
  then show ?thesis
    using assms(1-4) Some err
    by (simp add: run_configured c_json_def verifications_def outbound_fetches_def)
qed

theorem verification_precedes_url_validation_witness:
  "truthy (Some stub_wallet) = Some stub_wallet \<and>
   extractPayment stub (request (Some (js ''tx-1'')) None) = Some tx1 \<and>
   verifyPayment stub tx1 stub_wallet PRICE_USDC Map.empty =
     (\<lparr>valid = True, error = None, amount = Some (5 / 1000)\<rparr>,
      [(Solana, js ''tx-1'') \<mapsto> 1700000000]) \<and>
   truthy (query (request (Some (js ''tx-1'')) None) ''url'') = None \<and>
   status (response (run stub (Some stub_wallet) (request (Some (js ''tx-1'')) None) Map.empty)) = 400 \<and>
   outbound_fetches (calls (run stub (Some stub_wallet) (request (Some (js ''tx-1'')) None) Map.empty)) = [] \<and>
   world (run stub (Some stub_wallet) (request (Some (js ''tx-1'')) None) Map.empty) (Solana, js ''tx-1'')
     = Some 1700000000 \<and>
   status (response (run stub (Some stub_wallet)
       (request (Some (js ''tx-1'')) (Some (js ''https://example.com'')))
       (world (run stub (Some stub_wallet) (request (Some (js ''tx-1'')) None) Map.empty)))) = 402 \<and>
   property (body (response (run stub (Some stub_wallet)
       (request (Some (js ''tx-1'')) (Some (js ''https://example.com'')))
       (world (run stub (Some stub_wallet) (request (Some (js ''tx-1'')) None) Map.empty))))) ''reason''
     = Some (JStr (js ''AlreadyUsed''))"
proof -
  let ?w1 = "[(Solana, js ''tx-1'') \<mapsto> (1700000000::nat)]"
  have first: "status (response (run stub (Some stub_wallet) (request (Some (js ''tx-1'')) None) Map.empty)) = 400 \<and>
      outbound_fetches (calls (run stub (Some stub_wallet) (request (Some (js ''tx-1'')) None) Map.empty)) = [] \<and>
      world (run stub (Some stub_wallet) (request (Some (js ''tx-1'')) None) Map.empty) = ?w1"
    using verification_precedes_url_validation
      [OF stub_wallet_configured stub_extracts(1) stub_verifies_tx1 valid_tx1 disjI1 [OF url_missing]]
    by (simp add: no_fetch_yet)
  have again: "run stub (Some stub_wallet)
       (request (Some (js ''tx-1'')) (Some (js ''https://example.com''))) ?w1 =
     \<lparr>response = c_json []
        (JObj [(''error'', JStr (js ''Payment verification failed'')),
               (''reason'', JStr (js ''AlreadyUsed'')),
               (''hint'', JStr (js ''Ensure the transaction is confirmed and sends the correct USDC amount to the recipient wallet.''))])
        402,
      calls = [CallExtractPayment, CallVerifyPayment tx1], world = ?w1\<rparr>"
    by (simp add: run_configured [OF stub_wallet_configured stub_extracts(1) stub_refuses_replay]
        str_or_undefined_def)
  show ?thesis
    using first
    by (simp add: stub_wallet_configured stub_extracts stub_verifies_tx1 url_missing again c_json_def)
qed

text \<open>
  Claim C3. On a request that has passed the payment steps and whose url the URL
  constructor accepts, the handler answers 400 with an \<^verbatim>\<open>error\<close> property and without any
  fetch exactly when the rule of section 4.1 rejects the protocol and the lower-cased
  hostname; otherwise the handler goes on to the paid work with that url. On a hostname
  that is lower case already, as the URL constructor serialises the hostname of an http
  or https URL, the rule is applied to the hostname as it is.
\<close>

theorem ssrf_guard_rejects_exactly_the_listed_urls:
  assumes "truthy env = Some wallet"
    and "extractPayment d c = Some p"
    and "verifyPayment d p wallet PRICE_USDC w = (v, w1)"
    and "valid v"
    and "truthy (query c ''url'') = Some url"
    and "new_URL d url = Some parsed"
  shows "((status (response (run d env c w)) = 400 \<and>
           property (body (response (run d env c w))) ''error'' \<noteq> None \<and>
           outbound_fetches (calls (run d env c w)) = [])
          = ssrf_rejects (protocol parsed) (toLowerCase (hostname parsed))) \<and>
         (\<not> ssrf_rejects (protocol parsed) (toLowerCase (hostname parsed)) \<longrightarrow>
            run d env c w = step4 d p v url [CallExtractPayment, CallVerifyPayment p] w1) \<and>
         (toLowerCase (hostname parsed) = hostname parsed \<longrightarrow>
            (status (response (run d env c w)) = 400 \<and>
             property (body (response (run d env c w))) ''error'' \<noteq> None \<and>
             outbound_fetches (calls (run d env c w)) = [])
            = ssrf_rejects (protocol parsed) (hostname parsed))"
proof -
  let ?r = "run d env c w"
  let ?rej = "ssrf_rejects (protocol parsed) (toLowerCase (hostname parsed))"
  have eq: "(validate_url d url \<noteq> None) = ?rej"
    using assms(6) by (rule validate_url_parsed)
  have run: "?r =
     (case validate_url d url of
        Some err \<Rightarrow>
          \<lparr>response = c_json [] err 400,
           calls = [CallExtractPayment, CallVerifyPayment p], world = w1\<rparr>
      | None \<Rightarrow> step4 d p v url [CallExtractPayment, CallVerifyPayment p] w1)"
    using assms(1-5) by (simp add: run_configured)
  have blocked: "?rej \<Longrightarrow>
      status (response ?r) = 400 \<and> property (body (response ?r)) ''error'' \<noteq> None \<and>
      outbound_fetches (calls ?r) = []"
  proof -
    assume ?rej
    then obtain err where err: "validate_url d url = Some err"
      using eq by auto
    from validate_url_error [OF err] obtain m where "err = JObj [(''error'', JStr m)]"
      by blast
    then show ?thesis
      by (simp add: run err c_json_def outbound_fetches_def)
  qed
  have passed: "\<not> ?rej \<Longrightarrow> ?r = step4 d p v url [CallExtractPayment, CallVerifyPayment p] w1"
    using eq by (simp add: run)
  have not400: "\<not> ?rej \<Longrightarrow> status (response ?r) \<noteq> 400"
    using passed step4_status [of d p v url "[CallExtractPayment, CallVerifyPayment p]" w1]
    by auto
  have iff: "(status (response ?r) = 400 \<and> property (body (response ?r)) ''error'' \<noteq> None \<and>
      outbound_fetches (calls ?r) = []) = ?rej"
    using blocked not400 by blast
  show ?thesis
    using iff passed by simp
qed


theorem ssrf_guard_rejects_exactly_the_listed_urls_witness:
  "new_URL stub (js ''http://127.0.0.1/'') = Some \<lparr>protocol = ''http:'', hostname = ''127.0.0.1''\<rparr> \<and>
   ssrf_rejects ''http:'' ''127.0.0.1'' \<and>
   status (response (run stub (Some stub_wallet)
     (request (Some (js ''tx-1'')) (Some (js ''http://127.0.0.1/''))) Map.empty)) = 400 \<and>
   outbound_fetches (calls (run stub (Some stub_wallet)
     (request (Some (js ''tx-1'')) (Some (js ''http://127.0.0.1/''))) Map.empty)) = [] \<and>
   new_URL stub (js ''http://169.254.169.254/latest/meta-data'')
     = Some \<lparr>protocol = ''http:'', hostname = ''169.254.169.254''\<rparr> \<and>
   ssrf_rejects ''http:'' ''169.254.169.254'' \<and>
   status (response (run stub (Some stub_wallet)
     (request (Some (js ''tx-1'')) (Some (js ''http://169.254.169.254/latest/meta-data''))) Map.empty)) = 400 \<and>
   outbound_fetches (calls (run stub (Some stub_wallet)
     (request (Some (js ''tx-1'')) (Some (js ''http://169.254.169.254/latest/meta-data''))) Map.empty)) = [] \<and>
   new_URL stub (js ''https://svc.internal'') = Some \<lparr>protocol = ''https:'', hostname = ''svc.internal''\<rparr> \<and>
   ssrf_rejects ''https:'' ''svc.internal'' \<and>
   status (response (run stub (Some stub_wallet)
     (request (Some (js ''tx-1'')) (Some (js ''https://svc.internal''))) Map.empty)) = 400 \<and>
   outbound_fetches (calls (run stub (Some stub_wallet)
     (request (Some (js ''tx-1'')) (Some (js ''https://svc.internal''))) Map.empty)) = [] \<and>
   new_URL stub (js ''ftp://example.com/'') = Some \<lparr>protocol = ''ftp:'', hostname = ''example.com''\<rparr> \<and>
   ssrf_rejects ''ftp:'' ''example.com'' \<and>
   status (response (run stub (Some stub_wallet)
     (request (Some (js ''tx-1'')) (Some (js ''ftp://example.com/''))) Map.empty)) = 400 \<and>
   outbound_fetches (calls (run stub (Some stub_wallet)
     (request (Some (js ''tx-1'')) (Some (js ''ftp://example.com/''))) Map.empty)) = [] \<and>
   new_URL stub (js ''https://example.com'') = Some \<lparr>protocol = ''https:'', hostname = ''example.com''\<rparr> \<and>
   \<not> ssrf_rejects ''https:'' ''example.com'' \<and>
   status (response (run stub (Some stub_wallet)
     (request (Some (js ''tx-1'')) (Some (js ''https://example.com''))) Map.empty)) = 200 \<and>
   outbound_fetches (calls (run stub (Some stub_wallet)
     (request (Some (js ''tx-1'')) (Some (js ''https://example.com''))) Map.empty)) = [js ''https://example.com'']"
proof -
  let ?w1 = "[(Solana, js ''tx-1'') \<mapsto> (1700000000::nat)]"
  let ?v = "\<lparr>valid = True, error = None, amount = Some (5 / 1000 :: rat)\<rparr>"
  note paid = stub_wallet_configured stub_extracts(1) stub_verifies_tx1 valid_tx1
  have loopback: "status (response (run stub (Some stub_wallet)
       (request (Some (js ''tx-1'')) (Some (js ''http://127.0.0.1/''))) Map.empty)) = 400 \<and>
     outbound_fetches (calls (run stub (Some stub_wallet)
       (request (Some (js ''tx-1'')) (Some (js ''http://127.0.0.1/''))) Map.empty)) = []"
    using ssrf_guard_rejects_exactly_the_listed_urls
      [OF paid url_given [OF nonempty_urls(5)] stub_parses(2)]
    by (simp add: lower_hosts rule_on_examples)
  have metadata: "status (response (run stub (Some stub_wallet)
       (request (Some (js ''tx-1'')) (Some (js ''http://169.254.169.254/latest/meta-data''))) Map.empty)) = 400 \<and>
     outbound_fetches (calls (run stub (Some stub_wallet)
       (request (Some (js ''tx-1'')) (Some (js ''http://169.254.169.254/latest/meta-data''))) Map.empty)) = []"
    using ssrf_guard_rejects_exactly_the_listed_urls
      [OF paid url_given [OF nonempty_urls(6)] stub_parses(3)]
    by (simp add: lower_hosts rule_on_examples)
  have internal: "status (response (run stub (Some stub_wallet)
       (request (Some (js ''tx-1'')) (Some (js ''https://svc.internal''))) Map.empty)) = 400 \<and>
     outbound_fetches (calls (run stub (Some stub_wallet)
       (request (Some (js ''tx-1'')) (Some (js ''https://svc.internal''))) Map.empty)) = []"
    using ssrf_guard_rejects_exactly_the_listed_urls
      [OF paid url_given [OF nonempty_urls(7)] stub_parses(4)]
    by (simp add: lower_hosts rule_on_examples)
  have ftp: "status (response (run stub (Some stub_wallet)
       (request (Some (js ''tx-1'')) (Some (js ''ftp://example.com/''))) Map.empty)) = 400 \<and>
     outbound_fetches (calls (run stub (Some stub_wallet)
       (request (Some (js ''tx-1'')) (Some (js ''ftp://example.com/''))) Map.empty)) = []"
    using ssrf_guard_rejects_exactly_the_listed_urls
      [OF paid url_given [OF nonempty_urls(8)] stub_parses(5)]
    by (simp add: lower_hosts rule_on_examples)
  have passed: "run stub (Some stub_wallet)
       (request (Some (js ''tx-1'')) (Some (js ''https://example.com''))) Map.empty =
     step4 stub tx1 ?v (js ''https://example.com'') [CallExtractPayment, CallVerifyPayment tx1] ?w1"
    using ssrf_guard_rejects_exactly_the_listed_urls
      [OF paid url_given [OF nonempty_urls(1)] stub_parses(1)]
    by (simp add: lower_hosts rule_on_examples)
  have public: "status (response (run stub (Some stub_wallet)
       (request (Some (js ''tx-1'')) (Some (js ''https://example.com''))) Map.empty)) = 200 \<and>
     outbound_fetches (calls (run stub (Some stub_wallet)
       (request (Some (js ''tx-1'')) (Some (js ''https://example.com''))) Map.empty))
       = [js ''https://example.com'']"
    unfolding passed
    by (simp add: step4_succeeds [OF stub_proxy stub_fetches(1) stub_body header_tx1(1)] c_json_def
        outbound_fetches_def)
  show ?thesis
    using loopback metadata internal ftp public by (simp add: stub_parses rule_on_examples)
qed

text \<open>
  Claim C6. When the payment is verified, the url passes the validation, the proxy is
  configured, the fetch returns, its body is read, and the transaction id of the claim
  is a header value as it stands (as a value read from a request header is), the handler
  answers 200, sets \<^verbatim>\<open>X-Payment-Settled\<close> to \<^verbatim>\<open>true\<close> and \<^verbatim>\<open>X-Payment-TxHash\<close> to the transaction
  id, and sends its own payload: the url, the upstream status, the text, its length, the
  proxy and the payment.
\<close>

theorem success_is_200_with_settlement_headers:
  assumes "truthy env = Some wallet"
    and "extractPayment d c = Some p"
    and "verifyPayment d p wallet PRICE_USDC w = (v, w1)"
    and "valid v"
    and "truthy (query c ''url'') = Some url"
    and "validate_url d url = None"
    and "getProxy d = Inr proxy"
    and "proxyFetch d url w1 = (Inr resp, w2)"
    and "resp_text resp = Inr txt"
    and "header_value (txHash p) = Some (txHash p)"
  shows "status (response (run d env c w)) = 200 \<and>
         headers (response (run d env c w)) =
           [(''X-Payment-Settled'', js ''true''), (''X-Payment-TxHash'', txHash p)] \<and>
         properties (body (response (run d env c w))) =
           [''url'', ''status'', ''text'', ''contentLength'', ''proxy'', ''payment''] \<and>
         property (body (response (run d env c w))) ''url'' = Some (JStr url) \<and>
         property (body (response (run d env c w))) ''status'' = Some (JNum (of_int (resp_status resp))) \<and>
         property (body (response (run d env c w))) ''proxy'' =
           Some (JObj [(''country'', JStr (country proxy)), (''type'', JStr (js ''mobile''))]) \<and>
         property (body (response (run d env c w))) ''payment'' =
           Some (JObj ([(''txHash'', JStr (txHash p)),
                        (''network'', JStr (case network p of Solana \<Rightarrow> js ''solana'' | Base \<Rightarrow> js ''base''))] @
                       (case amount v of None \<Rightarrow> [] | Some a \<Rightarrow> [(''amount'', JNum a)]) @
                       [(''settled'', JBool True)])) \<and>
         calls (run d env c w) =
           [CallExtractPayment, CallVerifyPayment p, CallGetProxy, CallProxyFetch url, CallResponseText] \<and>
         world (run d env c w) = w2"
  by (simp add: run_validated [OF assms(1-6)] step4_succeeds [OF assms(7-10)] c_json_def
      stringify_payment)

theorem success_is_200_with_settlement_headers_witness:
  "truthy (Some stub_wallet) = Some stub_wallet \<and>
   extractPayment stub (request (Some (js ''tx-1'')) (Some (js ''https://example.com''))) = Some tx1 \<and>
   fst (verifyPayment stub tx1 stub_wallet PRICE_USDC Map.empty)
     = \<lparr>valid = True, error = None, amount = Some (5 / 1000)\<rparr> \<and>
   validate_url stub (js ''https://example.com'') = None \<and>
   header_value (txHash tx1) = Some (txHash tx1) \<and>
   status (response (run stub (Some stub_wallet)
     (request (Some (js ''tx-1'')) (Some (js ''https://example.com''))) Map.empty)) = 200 \<and>
   headers (response (run stub (Some stub_wallet)
     (request (Some (js ''tx-1'')) (Some (js ''https://example.com''))) Map.empty))
     = [(''X-Payment-Settled'', js ''true''), (''X-Payment-TxHash'', js ''tx-1'')] \<and>
   property (body (response (run stub (Some stub_wallet)
     (request (Some (js ''tx-1'')) (Some (js ''https://example.com''))) Map.empty))) ''status''
     = Some (JNum 200)"
  using success_is_200_with_settlement_headers
    [OF stub_wallet_configured stub_extracts(1) stub_verifies_tx1 valid_tx1
        url_given [OF nonempty_urls(1)] stub_passes(1) stub_proxy stub_fetches(1) _ header_tx1(1)]
  by (simp add: stub_wallet_configured stub_extracts stub_verifies_tx1 stub_passes header_tx1 tx1_parts)

text \<open>
  Claim C10. On a successful response (the payment verified, the url validated, the body
  fetched and read, the transaction id stored by \<^verbatim>\<open>c.header\<close>) the \<^verbatim>\<open>text\<close> property is the
  first 50000 code units of the fetched body, which is the body itself when it has no
  more than 50000, and \<^verbatim>\<open>contentLength\<close> is the length of the whole body.
\<close>

theorem text_is_capped_and_length_is_not:
  assumes "truthy env = Some wallet"
    and "extractPayment d c = Some p"
    and "verifyPayment d p wallet PRICE_USDC w = (v, w1)"
    and "valid v"
    and "truthy (query c ''url'') = Some url"
    and "validate_url d url = None"
    and "getProxy d = Inr proxy"
    and "proxyFetch d url w1 = (Inr resp, w2)"
    and "resp_text resp = Inr txt"
    and "header_value (txHash p) = Some t"
  shows "status (response (run d env c w)) = 200 \<and>
         property (body (response (run d env c w))) ''text'' = Some (JStr (take 50000 txt)) \<and>
         length (take 50000 txt) \<le> 50000 \<and>
         (length txt \<le> 50000 \<longrightarrow>
            property (body (response (run d env c w))) ''text'' = Some (JStr txt)) \<and>
         property (body (response (run d env c w))) ''contentLength'' = Some (JNum (of_nat (length txt)))"
  by (simp add: run_validated [OF assms(1-6)] step4_succeeds [OF assms(7-10)] c_json_def maxLen_def)

theorem text_is_capped_and_length_is_not_witness:
  "validate_url stub (js ''https://example.com'') = None \<and>
   header_value (txHash tx1) = Some (txHash tx1) \<and>
   property (body (response (run stub (Some stub_wallet)
     (request (Some (js ''tx-1'')) (Some (js ''https://example.com''))) Map.empty))) ''text''
     = Some (JStr (js ''<html>ok</html>'')) \<and>
   property (body (response (run stub (Some stub_wallet)
     (request (Some (js ''tx-1'')) (Some (js ''https://example.com''))) Map.empty))) ''contentLength''
     = Some (JNum 15) \<and>
   validate_url stub (js ''https://big.example.com/'') = None \<and>
   property (body (response (run stub (Some stub_wallet)
     (request (Some (js ''tx-1'')) (Some (js ''https://big.example.com/''))) Map.empty))) ''text''
     = Some (JStr (replicate 50000 0x61)) \<and>
   property (body (response (run stub (Some stub_wallet)
     (request (Some (js ''tx-1'')) (Some (js ''https://big.example.com/''))) Map.empty))) ''contentLength''
     = Some (JNum 60000)"
  using text_is_capped_and_length_is_not
    [OF stub_wallet_configured stub_extracts(1) stub_verifies_tx1 valid_tx1
        url_given [OF nonempty_urls(1)] stub_passes(1) stub_proxy stub_fetches(1) _ header_tx1(1)]
    text_is_capped_and_length_is_not
    [OF stub_wallet_configured stub_extracts(1) stub_verifies_tx1 valid_tx1
        url_given [OF nonempty_urls(2)] stub_passes(2) stub_proxy stub_fetches(2) _ header_tx1(1)]
  by (simp add: stub_passes header_tx1 small_body)

text \<open>
  Claim C7. When the payment is verified and the url passes the validation, an exception
  in the paid work (from \<^verbatim>\<open>proxyFetch\<close> once its retries are spent, from reading the body,
  or already from \<^verbatim>\<open>getProxy\<close>) makes the handler answer 502 with an error body that
  carries the message of the exception, and without the settlement headers.
\<close>

theorem fetch_failure_is_502:
  assumes "truthy env = Some wallet"
    and "extractPayment d c = Some p"
    and "verifyPayment d p wallet PRICE_USDC w = (v, w1)"
    and "valid v"
    and "truthy (query c ''url'') = Some url"
    and "validate_url d url = None"
    and "getProxy d = Inl err \<or>
         (\<exists>proxy. getProxy d = Inr proxy \<and>
            (fst (proxyFetch d url w1) = Inl err \<or>
             (\<exists>resp. fst (proxyFetch d url w1) = Inr resp \<and> resp_text resp = Inl err)))"
  shows "status (response (run d env c w)) = 502 \<and>
         headers (response (run d env c w)) = [] \<and>
         body (response (run d env c w)) =
           JObj [(''error'', JStr (js ''Service execution failed'')),
                 (''message'', JStr (message err)),
                 (''hint'', JStr (js ''The target URL may be unreachable or the proxy may be temporarily unavailable.''))]"
  using assms(7)
  by (auto simp: run_validated [OF assms(1-6)] step4_def failed_def c_json_def split: prod.splits)

theorem fetch_failure_is_502_witness:
  "fst (proxyFetch stub (js ''https://down.example.com/'') [(Solana, js ''tx-1'') \<mapsto> 1700000000])
     = Inl (Error (js ''Proxy fetch failed after 3 attempts'')) \<and>
   status (response (run stub (Some stub_wallet)
     (request (Some (js ''tx-1'')) (Some (js ''https://down.example.com/''))) Map.empty)) = 502 \<and>
   headers (response (run stub (Some stub_wallet)
     (request (Some (js ''tx-1'')) (Some (js ''https://down.example.com/''))) Map.empty)) = [] \<and>
   property (body (response (run stub (Some stub_wallet)
     (request (Some (js ''tx-1'')) (Some (js ''https://down.example.com/''))) Map.empty))) ''message''
     = Some (JStr (js ''Proxy fetch failed after 3 attempts'')) \<and>
   fst (proxyFetch stub (js ''https://cut.example.com/'') [(Solana, js ''tx-1'') \<mapsto> 1700000000])
     = Inr \<lparr>resp_status = 200, resp_text = Inl (Error (js ''terminated''))\<rparr> \<and>
   status (response (run stub (Some stub_wallet)
     (request (Some (js ''tx-1'')) (Some (js ''https://cut.example.com/''))) Map.empty)) = 502 \<and>
   property (body (response (run stub (Some stub_wallet)
     (request (Some (js ''tx-1'')) (Some (js ''https://cut.example.com/''))) Map.empty))) ''message''
     = Some (JStr (js ''terminated'')) \<and>
   getProxy stub_without_proxy = Inl (Error (js ''Proxy credentials are not configured'')) \<and>
   status (response (run stub_without_proxy (Some stub_wallet)
     (request (Some (js ''tx-1'')) (Some (js ''https://example.com''))) Map.empty)) = 502 \<and>
   outbound_fetches (calls (run stub_without_proxy (Some stub_wallet)
     (request (Some (js ''tx-1'')) (Some (js ''https://example.com''))) Map.empty)) = []"
proof -
  let ?w1 = "[(Solana, js ''tx-1'') \<mapsto> (1700000000::nat)]"
  have down: "getProxy stub = Inl (Error (js ''Proxy fetch failed after 3 attempts'')) \<or>
      (\<exists>proxy. getProxy stub = Inr proxy \<and>
         (fst (proxyFetch stub (js ''https://down.example.com/'') ?w1)
            = Inl (Error (js ''Proxy fetch failed after 3 attempts'')) \<or>
          (\<exists>resp. fst (proxyFetch stub (js ''https://down.example.com/'') ?w1) = Inr resp \<and>
             resp_text resp = Inl (Error (js ''Proxy fetch failed after 3 attempts'')))))"
    by (simp add: stub_proxy stub_fetches)
  have cut: "getProxy stub = Inl (Error (js ''terminated'')) \<or>
      (\<exists>proxy. getProxy stub = Inr proxy \<and>
         (fst (proxyFetch stub (js ''https://cut.example.com/'') ?w1) = Inl (Error (js ''terminated'')) \<or>
          (\<exists>resp. fst (proxyFetch stub (js ''https://cut.example.com/'') ?w1) = Inr resp \<and>
             resp_text resp = Inl (Error (js ''terminated'')))))"
    by (simp add: stub_proxy stub_fetches)
  have e: "extractPayment stub_without_proxy
      (request (Some (js ''tx-1'')) (Some (js ''https://example.com''))) = Some tx1"
    by (simp add: stub_without_proxy_def stub_extracts)
  have v: "verifyPayment stub_without_proxy tx1 stub_wallet PRICE_USDC Map.empty =
     (\<lparr>valid = True, error = None, amount = Some (5 / 1000)\<rparr>, ?w1)"
    using stub_verifies_tx1 by (simp add: stub_without_proxy_def)
  have u: "validate_url stub_without_proxy (js ''https://example.com'') = None"
    using stub_passes(1) by (simp add: stub_without_proxy_def validate_url_def)
  have g: "getProxy stub_without_proxy = Inl (Error (js ''Proxy credentials are not configured''))"
    by (simp add: stub_without_proxy_def)
  have no_fetch: "outbound_fetches (calls (run stub_without_proxy (Some stub_wallet)
     (request (Some (js ''tx-1'')) (Some (js ''https://example.com''))) Map.empty)) = []"
    by (simp add: run_validated [OF stub_wallet_configured e v valid_tx1
          url_given [OF nonempty_urls(1)] u] step4_def g outbound_fetches_def)
  show ?thesis
    using fetch_failure_is_502
      [OF stub_wallet_configured stub_extracts(1) stub_verifies_tx1 valid_tx1
          url_given [OF nonempty_urls(4)] stub_passes(4) down]
      fetch_failure_is_502
      [OF stub_wallet_configured stub_extracts(1) stub_verifies_tx1 valid_tx1
          url_given [OF nonempty_urls(3)] stub_passes(3) cut]
      fetch_failure_is_502
      [OF stub_wallet_configured e v valid_tx1 url_given [OF nonempty_urls(1)] u disjI1 [OF g]]
    by (simp add: stub_fetches g no_fetch)
qed

section \<open>Claims on the payment module\<close>

lemma consume_all_length: "length (fst (consume_all cs store)) = length cs"
proof (induction cs arbitrary: store)
  case Nil
  then show ?case by simp
next
  case (Cons c cs)
  obtain now n tx where c: "c = (now, n, tx)"
    by (cases c) auto
  obtain r store' where step: "consume now n tx store = (r, store')"
    by (cases "consume now n tx store") auto
  show ?case
    using Cons.IH [of store'] by (auto simp: c step split: prod.splits)
qed

lemma consume_all_present:
  "store k = Some t \<Longrightarrow>
   snd (consume_all cs store) k = Some t \<and>
   answers_for k cs (fst (consume_all cs store)) = replicate (length (calls_for k cs)) AlreadyUsed"
proof (induction cs arbitrary: store)
  case Nil
  then show ?case by (simp add: calls_for_def)
next
  case (Cons c cs)
  obtain now n tx where c: "c = (now, n, tx)"
    by (cases c) auto
  obtain r store' where step: "consume now n tx store = (r, store')"
    by (cases "consume now n tx store") auto
  have keep: "store' k = Some t"
    using step Cons.prems by (auto simp: consume_def split: option.splits)
  have r: "(n, tx) = k \<Longrightarrow> r = AlreadyUsed"
    using step Cons.prems by (auto simp: consume_def split: option.splits)
  show ?case
    using Cons.IH [of store'] keep r by (auto simp: c step calls_for_def split: prod.splits)
qed

lemma consume_all_absent:
  "store k = None \<Longrightarrow>
   answers_for k cs (fst (consume_all cs store)) =
     (case calls_for k cs of [] \<Rightarrow> [] | c # later \<Rightarrow> FirstUse # replicate (length later) AlreadyUsed) \<and>
   snd (consume_all cs store) k = (case calls_for k cs of [] \<Rightarrow> None | c # later \<Rightarrow> Some (fst c))"
proof (induction cs arbitrary: store)
  case Nil
  then show ?case by (simp add: calls_for_def)
next
  case (Cons c cs)
  obtain now n tx where c: "c = (now, n, tx)"
    by (cases c) auto
  obtain r store' where step: "consume now n tx store = (r, store')"
    by (cases "consume now n tx store") auto
  show ?case
  proof (cases "(n, tx) = k")
    case True
    have r: "r = FirstUse" and s: "store' k = Some now"
      using step Cons.prems True by (auto simp: consume_def split: option.splits)
    show ?thesis
      using consume_all_present [of store' k now cs] s True r
      by (auto simp: c step calls_for_def split: prod.splits)
  next
    case False
    have s: "store' k = None"
      using step Cons.prems False by (auto simp: consume_def split: option.splits)
    show ?thesis
      using Cons.IH [of store'] s False by (auto simp: c step calls_for_def split: prod.splits)
  qed
qed

text \<open>
  Claim C1. In every history of \<open>consume\<close> calls, whatever other pairs are interleaved:
  when the pair is absent at the start, the answers to the calls for it are FirstUse for
  the first and AlreadyUsed for every later one, and from its first call on the pair is
  present, with the time of that call; when the pair is present at the start, every
  answer for it is AlreadyUsed and its entry is unchanged. A single call answers FirstUse
  exactly when the pair is absent, and the pair is present after it. So a pair goes from
  absent to present once, and never back.
\<close>

theorem first_use_exactly_once:
  "(store (n, tx) = None \<longrightarrow>
      answers_for (n, tx) cs (fst (consume_all cs store)) =
        (case calls_for (n, tx) cs of
           [] \<Rightarrow> []
         | c # later \<Rightarrow> FirstUse # replicate (length later) AlreadyUsed) \<and>
      snd (consume_all cs store) (n, tx) =
        (case calls_for (n, tx) cs of [] \<Rightarrow> None | c # later \<Rightarrow> Some (fst c))) \<and>
   (store (n, tx) = Some t \<longrightarrow>
      answers_for (n, tx) cs (fst (consume_all cs store)) =
        replicate (length (calls_for (n, tx) cs)) AlreadyUsed \<and>
      snd (consume_all cs store) (n, tx) = Some t) \<and>
   length (fst (consume_all cs store)) = length cs \<and>
   (fst (consume now n tx store) = FirstUse) = (store (n, tx) = None) \<and>
   snd (consume now n tx store) (n, tx) \<noteq> None"
proof -
  have single: "(fst (consume now n tx store) = FirstUse) = (store (n, tx) = None) \<and>
      snd (consume now n tx store) (n, tx) \<noteq> None"
    by (simp add: consume_def split: option.splits)
  show ?thesis
    using consume_all_absent [of store "(n, tx)" cs] consume_all_present [of store "(n, tx)" t cs]
      consume_all_length [of cs store] single
    by blast
qed

theorem first_use_exactly_once_witness:
  "(Map.empty :: replay_store) (Solana, js ''a'') = None \<and>
   fst (consume_all
      [(1, Solana, js ''a''), (2, Base, js ''a''), (3, Solana, js ''a''), (4, Solana, js ''b''),
       (5, Solana, js ''a'')] Map.empty)
     = [FirstUse, FirstUse, AlreadyUsed, FirstUse, AlreadyUsed] \<and>
   answers_for (Solana, js ''a'')
      [(1, Solana, js ''a''), (2, Base, js ''a''), (3, Solana, js ''a''), (4, Solana, js ''b''),
       (5, Solana, js ''a'')]
      (fst (consume_all
        [(1, Solana, js ''a''), (2, Base, js ''a''), (3, Solana, js ''a''), (4, Solana, js ''b''),
         (5, Solana, js ''a'')] Map.empty))
     = [FirstUse, AlreadyUsed, AlreadyUsed] \<and>
   snd (consume_all
      [(1, Solana, js ''a''), (2, Base, js ''a''), (3, Solana, js ''a''), (4, Solana, js ''b''),
       (5, Solana, js ''a'')] Map.empty) (Solana, js ''a'') = Some 1 \<and>
   [(Solana, js ''a'') \<mapsto> (7::nat)] (Solana, js ''a'') = Some 7 \<and>
   answers_for (Solana, js ''a'')
      [(8, Solana, js ''b''), (9, Solana, js ''a'')]
      (fst (consume_all [(8, Solana, js ''b''), (9, Solana, js ''a'')] [(Solana, js ''a'') \<mapsto> 7]))
     = [AlreadyUsed] \<and>
   snd (consume_all [(8, Solana, js ''b''), (9, Solana, js ''a'')] [(Solana, js ''a'') \<mapsto> 7])
      (Solana, js ''a'') = Some 7"
  using first_use_exactly_once
      [of Map.empty Solana "js ''a''"
          "[(1, Solana, js ''a''), (2, Base, js ''a''), (3, Solana, js ''a''), (4, Solana, js ''b''),
            (5, Solana, js ''a'')]"]
    first_use_exactly_once
      [of "[(Solana, js ''a'') \<mapsto> 7]" Solana "js ''a''"
          "[(8, Solana, js ''b''), (9, Solana, js ''a'')]" 7]
  by (simp add: calls_for_def consume_def js_def)

text \<open>
  Claim C2. Whichever variant verifies the claim: an Accepted result carries an amount of
  at least 0.98 times the required price, and the configured wallet as recipient; for a
  transfer to the wallet the result is Accepted when the amount is at least 0.98 times
  the price and Rejected with AmountMismatch otherwise; so exactly 0.98 times the price
  is accepted and a cent less is an AmountMismatch.
\<close>

theorem tolerance_is_98_percent:
  "(outcome (verify rpc claim wallet price) = Accepted \<longrightarrow>
      (\<exists>usd. amountUsd (verify rpc claim wallet price) = Some usd \<and> usd \<ge> price * (98 / 100)) \<and>
      recipient (verify rpc claim wallet price) = Some wallet) \<and>
   (rpc (network claim) (txHash claim) = Transfer sender wallet usd \<longrightarrow>
      outcome (verify rpc claim wallet price) =
        (if usd \<ge> price * (98 / 100) then Accepted else Rejected AmountMismatch)) \<and>
   outcome (verify (\<lambda>n tx. Transfer sender wallet (price * (98 / 100))) claim wallet price) = Accepted \<and>
   outcome (verify (\<lambda>n tx. Transfer sender wallet (price * (98 / 100) - 1 / 100)) claim wallet price)
     = Rejected AmountMismatch"
proof -
  have accepted: "outcome (verify rpc claim wallet price) = Accepted \<longrightarrow>
      (\<exists>usd. amountUsd (verify rpc claim wallet price) = Some usd \<and> usd \<ge> price * (98 / 100)) \<and>
      recipient (verify rpc claim wallet price) = Some wallet"
  proof (cases "network claim")
    case Solana
    then show ?thesis
      by (cases "rpc Solana (txHash claim)")
        (auto simp: verify_def within_tolerance_def rejected_def split: if_splits)
  next
    case Base
    then show ?thesis
      by (cases "rpc Base (txHash claim)")
        (auto simp: verify_def within_tolerance_def rejected_def split: if_splits)
  qed
  have transfer: "\<And>rpc usd. rpc (network claim) (txHash claim) = Transfer sender wallet usd \<Longrightarrow>
      outcome (verify rpc claim wallet price) =
        (if usd \<ge> price * (98 / 100) then Accepted else Rejected AmountMismatch)"
    by (cases "network claim") (simp_all add: verify_def within_tolerance_def)
  show ?thesis
    using accepted transfer [of rpc usd]
      transfer [of "\<lambda>n tx. Transfer sender wallet (price * (98 / 100))" "price * (98 / 100)"]
      transfer [of "\<lambda>n tx. Transfer sender wallet (price * (98 / 100) - 1 / 100)" "price * (98 / 100) - 1 / 100"]
    by simp
qed

theorem tolerance_is_98_percent_witness:
  "outcome (verify stub_chain tx1 stub_wallet PRICE_USDC) = Accepted \<and>
   amountUsd (verify stub_chain tx1 stub_wallet PRICE_USDC) = Some (5 / 1000) \<and>
   (5 / 1000 :: rat) \<ge> PRICE_USDC * (98 / 100) \<and>
   recipient (verify stub_chain tx1 stub_wallet PRICE_USDC) = Some stub_wallet \<and>
   stub_chain (network tx2) (txHash tx2) = Transfer (js ''payer-1'') stub_wallet (1 / 1000) \<and>
   \<not> (1 / 1000 :: rat) \<ge> PRICE_USDC * (98 / 100) \<and>
   outcome (verify stub_chain tx2 stub_wallet PRICE_USDC) = Rejected AmountMismatch \<and>
   outcome (verify (\<lambda>n tx. Transfer (js ''payer-1'') stub_wallet (49 / 10000)) tx1 stub_wallet PRICE_USDC)
     = Accepted"
  using tolerance_is_98_percent [of stub_chain tx1 stub_wallet PRICE_USDC "js ''payer-1''" "5 / 1000"]
    tolerance_is_98_percent [of stub_chain tx2 stub_wallet PRICE_USDC "js ''payer-1''" "1 / 1000"]
  by (simp add: stub_chain_def tx1_def tx2_def stub_wallet_def PRICE_USDC_def verify_def
      within_tolerance_def js_def)

end
